theory Spec2Isabelle
  imports Main
begin

section \<open>Activation controller: the push-to-talk key handlers of the main process\<close>

text \<open>
  The main process keeps, per key source, two module-level variables
  (\<open>globeKeyDownTime\<close>/\<open>globeKeyIsRecording\<close> on macOS,
  \<open>winKeyDownTime\<close>/\<open>winKeyIsRecording\<close> on Windows) and schedules a hold
  timer with \<open>setTimeout\<close> on every key-down in push mode. No handler ever calls
  \<open>clearTimeout\<close>, so the set of scheduled timers is part of the state: it is kept
  here as the list of their due times, in scheduling order.

  Each handler is modelled as one atomic step that maps the variables to their new
  values and returns the commands it sends to the window manager, in order. The values
  the handlers read from other managers (window liveness, current hotkey, activation
  mode) are the fields of \<open>controller_env\<close>; \<open>Date.now()\<close> is the \<open>now\<close> argument,
  in milliseconds.
\<close>

datatype command =
    GlobeKeyPressed
  | ShowPanel
  | HidePanel
  | StartDictation
  | StopDictation
  | ToggleDictation

record controller_env =
  mainWindowLive :: bool
  controlPanelLive :: bool
  currentHotkey :: string
  activationMode :: string

record ptt_state =
  keyDownTime :: nat
  keyIsRecording :: bool
  pendingTimers :: "nat list"

definition MIN_HOLD_DURATION_MS :: nat where
  "MIN_HOLD_DURATION_MS = 150"

definition WIN_MIN_HOLD_DURATION_MS :: nat where
  "WIN_MIN_HOLD_DURATION_MS = 150"

text \<open>
  The callback passed to \<open>setTimeout\<close>; both platforms use the same body on their own
  pair of variables.
\<close>

definition hold_timer_fired :: "ptt_state \<Rightarrow> ptt_state \<times> command list" where
  "hold_timer_fired s =
     (if 0 < keyDownTime s \<and> \<not> keyIsRecording s
      then (s\<lparr>keyIsRecording := True\<rparr>, [StartDictation])
      else (s, []))"

text \<open>\<open>globeKeyManager.on("globe-down")\<close>\<close>

definition globe_down :: "controller_env \<Rightarrow> nat \<Rightarrow> ptt_state \<Rightarrow> ptt_state \<times> command list" where
  "globe_down env now s =
     (let forwarded = (if controlPanelLive env then [GlobeKeyPressed] else []) in
      if currentHotkey env = ''GLOBE'' then
        if mainWindowLive env then
          if activationMode env = ''push'' then
            (s\<lparr>keyDownTime := now, keyIsRecording := False,
               pendingTimers := pendingTimers s @ [now + MIN_HOLD_DURATION_MS]\<rparr>,
             forwarded @ [ShowPanel])
          else (s, forwarded @ [ShowPanel, ToggleDictation])
        else (s, forwarded)
      else (s, forwarded))"

text \<open>\<open>globeKeyManager.on("globe-up")\<close>\<close>

definition globe_up :: "controller_env \<Rightarrow> ptt_state \<Rightarrow> ptt_state \<times> command list" where
  "globe_up env s =
     (if currentHotkey env = ''GLOBE'' then
        if activationMode env = ''push'' then
          if keyIsRecording s
          then (s\<lparr>keyDownTime := 0, keyIsRecording := False\<rparr>, [StopDictation])
          else (s\<lparr>keyDownTime := 0\<rparr>, [])
        else (s, [])
      else (s, []))"

text \<open>\<open>windowsKeyManager.on("key-down")\<close>\<close>

definition win_key_down :: "controller_env \<Rightarrow> nat \<Rightarrow> ptt_state \<Rightarrow> ptt_state \<times> command list" where
  "win_key_down env now s =
     (if mainWindowLive env then
        if activationMode env = ''push'' then
          (s\<lparr>keyDownTime := now, keyIsRecording := False,
             pendingTimers := pendingTimers s @ [now + WIN_MIN_HOLD_DURATION_MS]\<rparr>,
           [ShowPanel])
        else (s, [])
      else (s, []))"

text \<open>\<open>windowsKeyManager.on("key-up")\<close>\<close>

definition win_key_up :: "controller_env \<Rightarrow> ptt_state \<Rightarrow> ptt_state \<times> command list" where
  "win_key_up env s =
     (if mainWindowLive env then
        if activationMode env = ''push'' then
          (let wasRecording = keyIsRecording s;
               s' = s\<lparr>keyDownTime := 0, keyIsRecording := False\<rparr>
           in if wasRecording then (s', [StopDictation]) else (s', [HidePanel]))
        else (s, [])
      else (s, []))"

subsection \<open>The event loop around the handlers\<close>

text \<open>
  A key event arrives with the time at which its handler runs. Before the handler runs,
  every scheduled timer whose due time has been reached fires, in scheduling order, and
  leaves the list of pending timers. A timer that is due at the very instant of a key
  event is taken to fire first: it was scheduled before the event arrived.
\<close>

datatype key_source = Globe | WindowsKey

datatype key_event = KeyDown | KeyUp

fun fire_timers :: "nat list \<Rightarrow> ptt_state \<Rightarrow> ptt_state \<times> command list" where
  "fire_timers [] s = (s, [])"
| "fire_timers (d # ds) s =
     (case hold_timer_fired s of (s1, c1) \<Rightarrow>
        (case fire_timers ds s1 of (s2, c2) \<Rightarrow> (s2, c1 @ c2)))"

definition run_due :: "nat \<Rightarrow> ptt_state \<Rightarrow> ptt_state \<times> command list" where
  "run_due now s =
     fire_timers (filter (\<lambda>d. d \<le> now) (pendingTimers s))
       (s\<lparr>pendingTimers := filter (\<lambda>d. \<not> d \<le> now) (pendingTimers s)\<rparr>)"

fun dispatch :: "key_source \<Rightarrow> controller_env \<Rightarrow> nat \<Rightarrow> key_event \<Rightarrow> ptt_state
    \<Rightarrow> ptt_state \<times> command list" where
  "dispatch Globe env now KeyDown s = globe_down env now s"
| "dispatch Globe env now KeyUp s = globe_up env s"
| "dispatch WindowsKey env now KeyDown s = win_key_down env now s"
| "dispatch WindowsKey env now KeyUp s = win_key_up env s"

definition step :: "key_source \<Rightarrow> controller_env \<Rightarrow> nat \<times> key_event \<Rightarrow> ptt_state
    \<Rightarrow> ptt_state \<times> command list" where
  "step src env ev s =
     (case run_due (fst ev) s of (s1, c1) \<Rightarrow>
        (case dispatch src env (fst ev) (snd ev) s1 of (s2, c2) \<Rightarrow> (s2, c1 @ c2)))"

fun run :: "key_source \<Rightarrow> controller_env \<Rightarrow> (nat \<times> key_event) list \<Rightarrow> ptt_state
    \<Rightarrow> ptt_state \<times> command list" where
  "run src env [] s = (s, [])"
| "run src env (ev # evs) s =
     (case step src env ev s of (s1, c1) \<Rightarrow>
        (case run src env evs s1 of (s2, c2) \<Rightarrow> (s2, c1 @ c2)))"

text \<open>
  The conditions under which both handlers of a source act in push mode: the main
  window is live, the mode read from the settings is \<open>"push"\<close>, and for the Globe
  source the current hotkey is \<open>"GLOBE"\<close>.
\<close>

fun push_enabled :: "key_source \<Rightarrow> controller_env \<Rightarrow> bool" where
  "push_enabled Globe env =
     (currentHotkey env = ''GLOBE'' \<and> mainWindowLive env \<and> activationMode env = ''push'')"
| "push_enabled WindowsKey env = (mainWindowLive env \<and> activationMode env = ''push'')"

text \<open>
  A session is live while the key-down time is set: it is the test the timer callback
  uses for "key is still being held".
\<close>

definition session_live :: "ptt_state \<Rightarrow> bool" where
  "session_live s = (0 < keyDownTime s)"

definition idle :: ptt_state where
  "idle = \<lparr>keyDownTime = 0, keyIsRecording = False, pendingTimers = []\<rparr>"

definition push_env :: controller_env where
  "push_env = \<lparr>mainWindowLive = True, controlPanelLive = False,
               currentHotkey = ''GLOBE'', activationMode = ''push''\<rparr>"

definition win_push_env :: controller_env where
  "win_push_env = \<lparr>mainWindowLive = True, controlPanelLive = False,
                   currentHotkey = ''F9'', activationMode = ''push''\<rparr>"

section \<open>Audio ducking manager\<close>

text \<open>
  \<open>AudioDuckingManager\<close> holds its state in the fields of \<open>this\<close>; they are the
  record \<open>ducking_manager\<close>. Every method is modelled as a function from the manager
  to the updated manager, the value the method (or the promise it returns) yields, and
  the list of commands it issues to the operating system, in order. What the operating
  system answers is read from \<open>ducking_env\<close>: the platform name, the files that exist,
  what the spawned helper does, and how each \<open>osascript\<close> call ends. Calls to the debug
  logger are left out.
\<close>

datatype player_key = KMusic | KSpotify

record saved_volumes =
  music :: "string option"
  spotify :: "string option"

fun saved_get :: "player_key \<Rightarrow> saved_volumes \<Rightarrow> string option" where
  "saved_get KMusic v = music v"
| "saved_get KSpotify v = spotify v"

fun saved_set :: "player_key \<Rightarrow> string option \<Rightarrow> saved_volumes \<Rightarrow> saved_volumes" where
  "saved_set KMusic x v = v\<lparr>music := x\<rparr>"
| "saved_set KSpotify x v = v\<lparr>spotify := x\<rparr>"

record ducking_manager =
  duckerProcess :: "nat option"
  isActive :: bool
  savedVolumes :: saved_volumes
  duckLevel :: string
  useAdvancedDucking :: bool
  fallbackMode :: bool

text \<open>The state the constructor builds.\<close>

definition new_manager :: ducking_manager where
  "new_manager =
     \<lparr>duckerProcess = None, isActive = False,
      savedVolumes = \<lparr>music = None, spotify = None\<rparr>,
      duckLevel = ''default'', useAdvancedDucking = False, fallbackMode = False\<rparr>"

text \<open>
  What happens after \<open>spawn\<close> is called, up to the moment the promise of
  \<open>startNativeDucking\<close> settles: \<open>spawn\<close> throws; the helper prints
  \<open>DUCKING_STARTED\<close>; the process emits \<open>error\<close>; the process exits before printing
  it; or nothing arrives within the 3000 ms timeout.
\<close>

datatype native_outcome =
    SpawnThrows
  | DuckingStarted
  | ProcessError
  | ExitBeforeStart
  | StartTimeout

text \<open>
  How an \<open>osascript\<close> probe ends: with an error, or with the text it printed, trimmed
  (the \<open>state\<close> the callback computes with \<open>stdout.trim()\<close>).
\<close>

datatype probe_result = ProbeError | ProbeOutput string

record ducking_env =
  platform :: string
  possiblePaths :: "string list"
  existingFiles :: "string list"
  helperPid :: nat
  nativeOutcome :: native_outcome
  probeResult :: "string \<Rightarrow> probe_result"
  pauseFails :: "string \<Rightarrow> bool"
  resumeFails :: "string \<Rightarrow> bool"

datatype os_command =
    SpawnHelper string "string list"
  | KillHelper nat
  | ProbePlayer string
  | PausePlayer string
  | ResumePlayer string

text \<open>A settled promise: resolved with a value or rejected with a reason.\<close>

datatype 'a settled = Resolved 'a | Rejected string

fun promise_all :: "'a settled list \<Rightarrow> 'a list settled" where
  "promise_all [] = Resolved []"
| "promise_all (Rejected e # ps) = Rejected e"
| "promise_all (Resolved x # ps) =
     (case promise_all ps of Rejected e \<Rightarrow> Rejected e | Resolved xs \<Rightarrow> Resolved (x # xs))"

definition getBinaryPath :: "ducking_env \<Rightarrow> string option" where
  "getBinaryPath env = find (\<lambda>p. p \<in> set (existingFiles env)) (possiblePaths env)"

definition isNativeDuckingAvailable :: "ducking_env \<Rightarrow> bool" where
  "isNativeDuckingAvailable env =
     (if platform env \<noteq> ''darwin'' then False else getBinaryPath env \<noteq> None)"

definition stopNativeDucking :: "ducking_manager \<Rightarrow> ducking_manager \<times> os_command list" where
  "stopNativeDucking s =
     (case duckerProcess s of
        Some p \<Rightarrow> (s\<lparr>duckerProcess := None\<rparr>, [KillHelper p])
      | None \<Rightarrow> (s, []))"

definition startNativeDucking ::
  "ducking_env \<Rightarrow> string \<Rightarrow> bool \<Rightarrow> ducking_manager \<Rightarrow> ducking_manager \<times> bool \<times> os_command list" where
  "startNativeDucking env level advanced s =
     (case getBinaryPath env of
        None \<Rightarrow> (s, False, [])
      | Some binaryPath \<Rightarrow>
          (let args = [''start'', ''--level'', level] @ (if advanced then [''--advanced''] else []);
               spawned = [SpawnHelper binaryPath args]
           in case nativeOutcome env of
                SpawnThrows \<Rightarrow> (s, False, spawned)
              | DuckingStarted \<Rightarrow>
                  (s\<lparr>duckerProcess := Some (helperPid env), isActive := True,
                     fallbackMode := False\<rparr>, True, spawned)
              | ProcessError \<Rightarrow> (s\<lparr>duckerProcess := None\<rparr>, False, spawned)
              | ExitBeforeStart \<Rightarrow>
                  (s\<lparr>duckerProcess := None, isActive := False\<rparr>, False, spawned)
              | StartTimeout \<Rightarrow>
                  (case stopNativeDucking (s\<lparr>duckerProcess := Some (helperPid env)\<rparr>) of
                     (s1, killed) \<Rightarrow> (s1, False, spawned @ killed))))"

text \<open>
  \<open>pauseMusicApp\<close> issues its probe as soon as it is called; the pause command is
  issued later, from the callback of the probe. The two lists of commands are returned
  apart: first what the call itself issues, then what its callbacks issue.
\<close>

definition pauseMusicApp ::
  "ducking_env \<Rightarrow> string \<Rightarrow> player_key \<Rightarrow> ducking_manager
     \<Rightarrow> ducking_manager \<times> bool settled \<times> os_command list \<times> os_command list" where
  "pauseMusicApp env appName key s =
     (case probeResult env appName of
        ProbeError \<Rightarrow> (s, Resolved False, [ProbePlayer appName], [])
      | ProbeOutput state \<Rightarrow>
          if state = ''playing'' then
            if pauseFails env appName
            then (s, Resolved False, [ProbePlayer appName], [PausePlayer appName])
            else (s\<lparr>savedVolumes := saved_set key (Some ''was_playing'') (savedVolumes s)\<rparr>,
                  Resolved True, [ProbePlayer appName], [PausePlayer appName])
          else (s, Resolved False, [ProbePlayer appName], []))"

text \<open>
  \<open>startAppleScriptDucking\<close> calls \<open>pauseMusicApp\<close> for both players before it awaits
  either promise, so both probes go out before any pause. The two callbacks write
  different entries of \<open>savedVolumes\<close>; they are taken in the order Music, Spotify.
\<close>

definition startAppleScriptDucking ::
  "ducking_env \<Rightarrow> ducking_manager \<Rightarrow> ducking_manager \<times> bool \<times> os_command list" where
  "startAppleScriptDucking env s =
     (if platform env \<noteq> ''darwin'' then (s, False, [])
      else
        case pauseMusicApp env ''Music'' KMusic (s\<lparr>fallbackMode := True\<rparr>) of
          (s1, r1, probe1, later1) \<Rightarrow>
            (case pauseMusicApp env ''Spotify'' KSpotify s1 of
               (s2, r2, probe2, later2) \<Rightarrow>
                 (case promise_all [r1, r2] of
                    Resolved results \<Rightarrow>
                      (let anyPaused = list_ex (\<lambda>r. r) results
                       in (s2\<lparr>isActive := (anyPaused \<or> True)\<rparr>, True,
                           probe1 @ probe2 @ later1 @ later2))
                  | Rejected err \<Rightarrow> (s2, False, probe1 @ probe2 @ later1 @ later2))))"

record ducking_options =
  level :: "string option"
  advanced :: "bool option"

definition startDucking ::
  "ducking_env \<Rightarrow> ducking_options \<Rightarrow> ducking_manager \<Rightarrow> ducking_manager \<times> bool \<times> os_command list" where
  "startDucking env options s =
     (if isActive s then (s, True, [])
      else
        let lvl = (case level options of
                     None \<Rightarrow> duckLevel s
                   | Some l \<Rightarrow> if l = [] then duckLevel s else l);
            adv = (case advanced options of
                     None \<Rightarrow> useAdvancedDucking s
                   | Some a \<Rightarrow> a)
        in if platform env = ''darwin'' then
             (case startNativeDucking env lvl adv s of
                (s1, nativeSuccess, t1) \<Rightarrow>
                  if nativeSuccess then (s1, True, t1)
                  else (case startAppleScriptDucking env s1 of
                          (s2, r, t2) \<Rightarrow> (s2, r, t1 @ t2)))
           else startAppleScriptDucking env s)"

definition resumeMusicApp ::
  "ducking_env \<Rightarrow> string \<Rightarrow> player_key \<Rightarrow> ducking_manager \<Rightarrow> ducking_manager \<times> os_command list" where
  "resumeMusicApp env appName key s =
     (if saved_get key (savedVolumes s) \<noteq> Some ''was_playing'' then (s, [])
      else if resumeFails env appName
      then (s\<lparr>savedVolumes := saved_set key None (savedVolumes s)\<rparr>, [ResumePlayer appName])
      else (s\<lparr>savedVolumes := saved_set key None (savedVolumes s)\<rparr>, [ResumePlayer appName]))"

definition stopDucking :: "ducking_env \<Rightarrow> ducking_manager \<Rightarrow> ducking_manager \<times> os_command list" where
  "stopDucking env s =
     (if \<not> isActive s then (s, [])
      else
        case (if fallbackMode s then
                (case resumeMusicApp env ''Music'' KMusic s of
                   (s1, t1) \<Rightarrow>
                     (case resumeMusicApp env ''Spotify'' KSpotify s1 of
                        (s2, t2) \<Rightarrow> (s2, t1 @ t2)))
              else stopNativeDucking s) of
          (s3, t3) \<Rightarrow> (s3\<lparr>isActive := False, fallbackMode := False\<rparr>, t3))"

text \<open>
  The object \<open>getStatus\<close> returns is kept as the list of its properties, name and
  value, in the order of the object literal.
\<close>

datatype js_value = JBool bool

type_synonym js_object = "(string \<times> js_value) list"

definition getStatus ::
  "ducking_env \<Rightarrow> ducking_manager \<Rightarrow> ducking_manager \<times> js_object \<times> os_command list" where
  "getStatus env s =
     (s, [(''isActive'', JBool (isActive s)),
          (''fallbackMode'', JBool (fallbackMode s)),
          (''nativeAvailable'', JBool (isNativeDuckingAvailable env))], [])"


definition cleanup :: "ducking_env \<Rightarrow> ducking_manager \<Rightarrow> ducking_manager \<times> os_command list" where
  "cleanup env s = stopDucking env s"

section \<open>Process teardown\<close>

text \<open>
  The state the \<open>will-quit\<close> handler of the main process acts on: what each manager
  instance of the main module currently holds.
\<close>

record app_state =
  hotkeysRegistered :: bool
  globeListenerRunning :: bool
  windowsListenerRunning :: bool
  updaterActive :: bool
  whisperServerRunning :: bool
  parakeetServerRunning :: bool
  llamaServerRunning :: bool
  audioDuckingManager :: ducking_manager

text \<open>
  Modelled from the spec: the \<open>stop()\<close>, \<open>unregisterAll()\<close>, \<open>cleanup()\<close> and
  \<open>stopServer()\<close> methods of the hotkey, key-listener, update and server managers are
  not part of the sources at hand. Each is taken to leave its resource stopped, as the
  adapter contract asks of \<open>stop()\<close>. The handler below calls them in the order of the
  source; it makes no call on \<open>audioDuckingManager\<close>.
\<close>

definition will_quit :: "app_state \<Rightarrow> app_state" where
  "will_quit a =
     a\<lparr>hotkeysRegistered := False,
       globeListenerRunning := False,
       windowsListenerRunning := False,
       updaterActive := False,
       whisperServerRunning := False,
       parakeetServerRunning := False,
       llamaServerRunning := False\<rparr>"

section \<open>Concrete inputs\<close>

text \<open>Environments and states used to evaluate the model on concrete inputs.\<close>

definition default_options :: ducking_options where
  "default_options = \<lparr>level = None, advanced = None\<rparr>"

definition timeout_env :: ducking_env where
  "timeout_env =
     \<lparr>platform = ''darwin'',
      possiblePaths = [''/app/bin/macos-audio-ducker'', ''/app/resources/bin/macos-audio-ducker''],
      existingFiles = [''/app/resources/bin/macos-audio-ducker''],
      helperPid = 4242,
      nativeOutcome = StartTimeout,
      probeResult = (\<lambda>a. if a = ''Music'' then ProbeOutput ''playing''
                          else ProbeOutput ''not_running''),
      pauseFails = (\<lambda>a. False),
      resumeFails = (\<lambda>a. False)\<rparr>"

definition failing_scripts_env :: ducking_env where
  "failing_scripts_env =
     \<lparr>platform = ''darwin'',
      possiblePaths = [''/app/bin/macos-audio-ducker''],
      existingFiles = [],
      helperPid = 4242,
      nativeOutcome = ExitBeforeStart,
      probeResult = (\<lambda>a. ProbeError),
      pauseFails = (\<lambda>a. True),
      resumeFails = (\<lambda>a. True)\<rparr>"


definition win32_env :: ducking_env where
  "win32_env =
     \<lparr>platform = ''win32'',
      possiblePaths = [''C:/app/bin/macos-audio-ducker''],
      existingFiles = [],
      helperPid = 4242,
      nativeOutcome = DuckingStarted,
      probeResult = (\<lambda>a. ProbeOutput ''playing''),
      pauseFails = (\<lambda>a. False),
      resumeFails = (\<lambda>a. False)\<rparr>"

definition paused_manager :: ducking_manager where
  "paused_manager =
     \<lparr>duckerProcess = None, isActive = True,
      savedVolumes = \<lparr>music = Some ''was_playing'', spotify = None\<rparr>,
      duckLevel = ''default'', useAdvancedDucking = False, fallbackMode = True\<rparr>"


definition native_manager :: ducking_manager where
  "native_manager =
     \<lparr>duckerProcess = Some 4242, isActive = True,
      savedVolumes = \<lparr>music = None, spotify = None\<rparr>,
      duckLevel = ''default'', useAdvancedDucking = False, fallbackMode = False\<rparr>"

definition quitting_app :: app_state where
  "quitting_app =
     \<lparr>hotkeysRegistered = True, globeListenerRunning = True, windowsListenerRunning = False,
      updaterActive = True, whisperServerRunning = True, parakeetServerRunning = False,
      llamaServerRunning = False, audioDuckingManager = native_manager\<rparr>"

definition recording_session :: ptt_state where
  "recording_session = \<lparr>keyDownTime = 1000, keyIsRecording = True, pendingTimers = []\<rparr>"

section \<open>Properties of the activation controller\<close>

lemma fire_timers_not_live:
  "keyDownTime s = 0 \<Longrightarrow> fire_timers ds s = (s, [])"
  by (induction ds) (simp_all add: hold_timer_fired_def)

lemma fire_timers_recording:
  "keyIsRecording s \<Longrightarrow> fire_timers ds s = (s, [])"
  by (induction ds) (simp_all add: hold_timer_fired_def)

lemma fire_timers_live:
  assumes "0 < keyDownTime s" and "\<not> keyIsRecording s" and "ds \<noteq> []"
  shows "fire_timers ds s = (s\<lparr>keyIsRecording := True\<rparr>, [StartDictation])"
proof (cases ds)
  case Nil
  with assms show ?thesis by simp
next
  case (Cons d rest)
  have "fire_timers rest (s\<lparr>keyIsRecording := True\<rparr>) = (s\<lparr>keyIsRecording := True\<rparr>, [])"
    by (rule fire_timers_recording) simp
  with assms Cons show ?thesis
    by (simp add: hold_timer_fired_def)
qed

lemma run_due_not_live:
  "keyDownTime s = 0 \<Longrightarrow>
   run_due now s = (s\<lparr>pendingTimers := filter (\<lambda>d. \<not> d \<le> now) (pendingTimers s)\<rparr>, [])"
  by (simp add: run_due_def fire_timers_not_live)

lemma dispatch_key_down_push:
  "push_enabled src env \<Longrightarrow>
   fst (dispatch src env now KeyDown s) =
     s\<lparr>keyDownTime := now, keyIsRecording := False,
       pendingTimers := pendingTimers s @ [now + 150]\<rparr>"
  by (cases src)
     (simp_all add: globe_down_def win_key_down_def MIN_HOLD_DURATION_MS_def
        WIN_MIN_HOLD_DURATION_MS_def Let_def)

subsection \<open>Short taps\<close>

text \<open>
  On the Windows source a key-up with no recording started sends exactly one
  \<open>HidePanel\<close> and nothing else; the Globe handler never sends \<open>HidePanel\<close> at all.
\<close>

lemma win_key_up_short_tap:
  "push_enabled WindowsKey env \<Longrightarrow> \<not> keyIsRecording s \<Longrightarrow>
   snd (win_key_up env s) = [HidePanel]"
  by (simp add: win_key_up_def)

lemma win_short_tap_run:
  "run WindowsKey win_push_env [(1000, KeyDown), (1050, KeyUp)] idle
     = (\<lparr>keyDownTime = 0, keyIsRecording = False, pendingTimers = [1150]\<rparr>,
        [ShowPanel, HidePanel])"
  by (simp add: step_def run_due_def win_key_down_def win_key_up_def win_push_env_def idle_def
      WIN_MIN_HOLD_DURATION_MS_def)

lemma globe_up_never_hides: "HidePanel \<notin> set (snd (globe_up env s))"
  by (simp add: globe_up_def)

text \<open>
  Claim C1. In push mode a key released before the hold timer fires should make the
  key-up handler send no start and no stop command and exactly one hide-panel command,
  on every source. On the Globe source it does not: with GLOBE as the hotkey, a live
  main window and push mode, a key-down at 1000 ms followed by a key-up at 1050 ms
  sends \<open>ShowPanel\<close> and nothing after it, so the panel the key-down opened stays
  open. The timer scheduled for 1150 ms is still pending and will find the key released.
\<close>

theorem globe_short_tap_sends_no_hide_panel:
  "run Globe push_env [(1000, KeyDown), (1050, KeyUp)] idle
     = (\<lparr>keyDownTime = 0, keyIsRecording = False, pendingTimers = [1150]\<rparr>, [ShowPanel])"
  by (simp add: step_def run_due_def globe_down_def globe_up_def push_env_def idle_def
      MIN_HOLD_DURATION_MS_def)

subsection \<open>Key-down during a live session\<close>

text \<open>
  Claim C2, as stated: a key-down that arrives while a session is live is ignored and
  resets neither the press time nor the recording flag, and starts no second timer.
  The handlers have no such test. On the Windows source, with a session live since
  1000 ms and recording started, a key-down at 1200 ms overwrites the press time,
  clears the recording flag and schedules a timer for 1350 ms.
\<close>

theorem key_down_while_live_is_not_ignored:
  "session_live recording_session \<and>
   win_key_down win_push_env 1200 recording_session
     = (\<lparr>keyDownTime = 1200, keyIsRecording = False, pendingTimers = [1350]\<rparr>, [ShowPanel])"
  by (simp add: session_live_def recording_session_def win_key_down_def win_push_env_def
      WIN_MIN_HOLD_DURATION_MS_def)

text \<open>
  The consequence for a whole run: a second key-down in the middle of a hold makes the
  second timer send a second start command.
\<close>

lemma repeated_key_down_starts_twice:
  "snd (run WindowsKey win_push_env [(1000, KeyDown), (1200, KeyDown), (1400, KeyUp)] idle)
     = [ShowPanel, StartDictation, ShowPanel, StartDictation, StopDictation]"
  by (simp add: step_def run_due_def win_key_down_def win_key_up_def win_push_env_def idle_def
      WIN_MIN_HOLD_DURATION_MS_def hold_timer_fired_def)

text \<open>
  Claim C2, amended. Each source has a single pair of session variables, so there is
  never more than one session record per source; but a key-down that arrives in push
  mode while a session is live is not ignored: it stamps the press time with the
  current time, resets the recording flag to false and schedules one more hold timer,
  due 150 ms later.
\<close>

theorem key_down_while_live_restarts_session:
  "push_enabled src env \<Longrightarrow> session_live s \<Longrightarrow>
   fst (dispatch src env now KeyDown s) =
     s\<lparr>keyDownTime := now, keyIsRecording := False,
       pendingTimers := pendingTimers s @ [now + 150]\<rparr>"
  by (rule dispatch_key_down_push)

theorem key_down_while_live_restarts_session_witness:
  "push_enabled WindowsKey win_push_env \<and> session_live recording_session \<and>
   fst (dispatch WindowsKey win_push_env 1200 KeyDown recording_session) =
     \<lparr>keyDownTime = 1200, keyIsRecording = False, pendingTimers = [1350]\<rparr>"
  using key_down_while_live_restarts_session [of WindowsKey win_push_env recording_session 1200]
  by (simp add: win_push_env_def recording_session_def session_live_def)

subsection \<open>Holds\<close>

text \<open>
  Claim C4. In push mode, when no session is live at key-down and the key is held for
  at least 150 ms, the commands sent for the pair are, apart from the key forwarded to
  the control panel on the Globe source, exactly: show the panel, one start-dictation
  (sent when a hold timer fires while the key is down), one stop-dictation (sent at
  key-up), in this order. Timers left pending by earlier presses are allowed. The press
  time is \<open>Date.now()\<close>, a positive number of milliseconds.
\<close>

theorem push_hold_one_start_then_one_stop:
  assumes en: "push_enabled src env"
    and idle0: "keyDownTime s = 0" "\<not> keyIsRecording s"
    and pos: "0 < t1"
    and held: "t1 + 150 \<le> t2"
  shows "filter (\<lambda>c. c \<noteq> GlobeKeyPressed)
           (snd (run src env [(t1, KeyDown), (t2, KeyUp)] s))
         = [ShowPanel, StartDictation, StopDictation]"
proof -
  define s0 where "s0 = s\<lparr>pendingTimers := filter (\<lambda>d. \<not> d \<le> t1) (pendingTimers s)\<rparr>"
  define s1 where "s1 = s0\<lparr>keyDownTime := t1, keyIsRecording := False,
       pendingTimers := pendingTimers s0 @ [t1 + 150]\<rparr>"
  have due0: "run_due t1 s = (s0, [])"
    using idle0 by (simp add: run_due_not_live s0_def)
  obtain c1 where d1: "dispatch src env t1 KeyDown s0 = (s1, c1)"
    and c1: "filter (\<lambda>c. c \<noteq> GlobeKeyPressed) c1 = [ShowPanel]"
    using en by (cases src)
      (auto simp add: globe_down_def win_key_down_def MIN_HOLD_DURATION_MS_def
        WIN_MIN_HOLD_DURATION_MS_def Let_def s1_def)
  define rest where "rest = filter (\<lambda>d. \<not> d \<le> t2) (pendingTimers s1)"
  define s2 where "s2 = s1\<lparr>pendingTimers := rest, keyIsRecording := True\<rparr>"
  have ne: "filter (\<lambda>d. d \<le> t2) (pendingTimers s1) \<noteq> []"
    using held by (simp add: s1_def)
  have due1: "run_due t2 s1 = (s2, [StartDictation])"
    unfolding run_due_def rest_def[symmetric]
    using fire_timers_live[of "s1\<lparr>pendingTimers := rest\<rparr>"
        "filter (\<lambda>d. d \<le> t2) (pendingTimers s1)"] ne pos
    by (simp add: s1_def s2_def)
  have up: "snd (dispatch src env t2 KeyUp s2) = [StopDictation]"
    using en by (cases src) (simp_all add: globe_up_def win_key_up_def s2_def Let_def)
  obtain s3 where up': "dispatch src env t2 KeyUp s2 = (s3, [StopDictation])"
    using up by (cases "dispatch src env t2 KeyUp s2") simp
  show ?thesis
    using due0 d1 c1 due1 up'
    by (simp add: step_def)
qed

theorem push_hold_one_start_then_one_stop_witness:
  "push_enabled Globe push_env \<and> keyDownTime idle = 0 \<and> \<not> keyIsRecording idle
     \<and> (0::nat) < 1000 \<and> (1000::nat) + 150 \<le> 1300
     \<and> filter (\<lambda>c. c \<noteq> GlobeKeyPressed)
           (snd (run Globe push_env [(1000, KeyDown), (1300, KeyUp)] idle))
         = [ShowPanel, StartDictation, StopDictation]"
  using push_hold_one_start_then_one_stop [of Globe push_env idle 1000 1300]
  by (simp add: push_env_def idle_def)

section \<open>Properties of the audio ducking manager\<close>

lemma pauseMusicApp_resolves:
  "fst (snd (pauseMusicApp env app key s)) =
     Resolved (probeResult env app = ProbeOutput ''playing'' \<and> \<not> pauseFails env app)"
  by (auto simp add: pauseMusicApp_def split: probe_result.split)

lemma pauseMusicApp_fallbackMode:
  "fallbackMode (fst (pauseMusicApp env app key s)) = fallbackMode s"
  by (simp add: pauseMusicApp_def split: probe_result.split)

lemma pauseMusicApp_commands:
  "snd (snd (pauseMusicApp env app key s)) =
     ([ProbePlayer app],
      if probeResult env app = ProbeOutput ''playing'' then [PausePlayer app] else [])"
  by (simp add: pauseMusicApp_def split: probe_result.split)

lemma pauseMusicApp_savedVolumes:
  "savedVolumes (fst (pauseMusicApp env app key s)) =
     (if probeResult env app = ProbeOutput ''playing'' \<and> \<not> pauseFails env app
      then saved_set key (Some ''was_playing'') (savedVolumes s)
      else savedVolumes s)"
  by (simp add: pauseMusicApp_def split: probe_result.split)

text \<open>
  On macOS the scripting fallback always returns true and ends active in fallback
  mode. It issues the probe of each player, then a pause for each player that answered
  \<open>playing\<close>, and records a player exactly when its pause went through.
\<close>

lemma startAppleScriptDucking_darwin:
  assumes "platform env = ''darwin''"
  shows "\<exists>s'. startAppleScriptDucking env s =
           (s', True,
            [ProbePlayer ''Music'', ProbePlayer ''Spotify''] @
              (if probeResult env ''Music'' = ProbeOutput ''playing''
               then [PausePlayer ''Music''] else []) @
              (if probeResult env ''Spotify'' = ProbeOutput ''playing''
               then [PausePlayer ''Spotify''] else []))
         \<and> isActive s' \<and> fallbackMode s'
         \<and> music (savedVolumes s') =
             (if probeResult env ''Music'' = ProbeOutput ''playing'' \<and> \<not> pauseFails env ''Music''
              then Some ''was_playing'' else music (savedVolumes s))
         \<and> spotify (savedVolumes s') =
             (if probeResult env ''Spotify'' = ProbeOutput ''playing''
                 \<and> \<not> pauseFails env ''Spotify''
              then Some ''was_playing'' else spotify (savedVolumes s))"
proof -
  let ?m = "s\<lparr>fallbackMode := True\<rparr>"
  obtain s1 r1 p1 l1 where c1: "pauseMusicApp env ''Music'' KMusic ?m = (s1, r1, p1, l1)"
    by (cases "pauseMusicApp env ''Music'' KMusic ?m")
  obtain s2 r2 p2 l2 where c2: "pauseMusicApp env ''Spotify'' KSpotify s1 = (s2, r2, p2, l2)"
    by (cases "pauseMusicApp env ''Spotify'' KSpotify s1")
  obtain b1 where b1: "r1 = Resolved b1"
    using pauseMusicApp_resolves[of env "''Music''" KMusic ?m] c1 by auto
  obtain b2 where b2: "r2 = Resolved b2"
    using pauseMusicApp_resolves[of env "''Spotify''" KSpotify s1] c2 by auto
  have f1: "fallbackMode s1"
    using pauseMusicApp_fallbackMode[of env "''Music''" KMusic ?m] c1 by simp
  have f2: "fallbackMode s2"
    using pauseMusicApp_fallbackMode[of env "''Spotify''" KSpotify s1] c2 f1 by simp
  have t1: "p1 = [ProbePlayer ''Music'']"
       "l1 = (if probeResult env ''Music'' = ProbeOutput ''playing''
              then [PausePlayer ''Music''] else [])"
    using pauseMusicApp_commands[of env "''Music''" KMusic ?m] c1 by simp_all
  have t2: "p2 = [ProbePlayer ''Spotify'']"
       "l2 = (if probeResult env ''Spotify'' = ProbeOutput ''playing''
              then [PausePlayer ''Spotify''] else [])"
    using pauseMusicApp_commands[of env "''Spotify''" KSpotify s1] c2 by simp_all
  have v1: "savedVolumes s1 =
       (if probeResult env ''Music'' = ProbeOutput ''playing'' \<and> \<not> pauseFails env ''Music''
        then saved_set KMusic (Some ''was_playing'') (savedVolumes s) else savedVolumes s)"
    using pauseMusicApp_savedVolumes[of env "''Music''" KMusic ?m] c1 by simp
  have v2: "savedVolumes s2 =
       (if probeResult env ''Spotify'' = ProbeOutput ''playing'' \<and> \<not> pauseFails env ''Spotify''
        then saved_set KSpotify (Some ''was_playing'') (savedVolumes s1) else savedVolumes s1)"
    using pauseMusicApp_savedVolumes[of env "''Spotify''" KSpotify s1] c2 by simp
  have res: "startAppleScriptDucking env s =
               (s2\<lparr>isActive := True\<rparr>, True, p1 @ p2 @ l1 @ l2)"
    using assms c1 c2 b1 b2 by (simp add: startAppleScriptDucking_def)
  have m: "music (savedVolumes s2) =
             (if probeResult env ''Music'' = ProbeOutput ''playing'' \<and> \<not> pauseFails env ''Music''
              then Some ''was_playing'' else music (savedVolumes s))"
    by (simp add: v1 v2)
  have sp: "spotify (savedVolumes s2) =
             (if probeResult env ''Spotify'' = ProbeOutput ''playing''
                 \<and> \<not> pauseFails env ''Spotify''
              then Some ''was_playing'' else spotify (savedVolumes s))"
    by (simp add: v1 v2)
  show ?thesis
    using res f2 m sp by (simp add: t1 t2)
qed

text \<open>
  A native attempt that does not end with \<open>DUCKING_STARTED\<close> returns false, issues no
  scripting command and records no player.
\<close>

lemma startNativeDucking_fails:
  assumes "getBinaryPath env = None \<or> nativeOutcome env \<noteq> DuckingStarted"
  shows "\<exists>s1 t1. startNativeDucking env lvl adv s = (s1, False, t1)
           \<and> (\<forall>app. ProbePlayer app \<notin> set t1 \<and> PausePlayer app \<notin> set t1)
           \<and> savedVolumes s1 = savedVolumes s"
proof (cases "getBinaryPath env")
  case None
  then show ?thesis by (simp add: startNativeDucking_def)
next
  case (Some bp)
  with assms have "nativeOutcome env \<noteq> DuckingStarted" by simp
  with Some show ?thesis
    by (cases "nativeOutcome env")
       (simp_all add: startNativeDucking_def stopNativeDucking_def Let_def)
qed


subsection \<open>Starting\<close>

text \<open>
  Claim C5. On macOS, starting from the inactive state, when the native attempt fails
  (no helper binary, \<open>spawn\<close> throws, the process reports an error, it exits before
  confirming, or the 3000 ms timeout passes), \<open>startDucking\<close> goes on to the scripting
  fallback: it probes Music and Spotify, pauses exactly the players that answered
  \<open>playing\<close>, returns success, and leaves the manager active in fallback mode, which
  is what \<open>getStatus\<close> then reports in its property \<open>fallbackMode\<close>.
\<close>

theorem native_failure_falls_back_to_pausing_players:
  assumes darwin: "platform env = ''darwin''"
    and inactive: "\<not> isActive s"
    and fails: "getBinaryPath env = None \<or> nativeOutcome env \<noteq> DuckingStarted"
  shows "case startDucking env options s of
           (s', ok, cmds) \<Rightarrow>
             ok \<and> isActive s' \<and> fallbackMode s'
             \<and> map_of (fst (snd (getStatus env s'))) ''fallbackMode'' = Some (JBool True)
             \<and> (\<forall>app. ProbePlayer app \<in> set cmds \<longleftrightarrow> app = ''Music'' \<or> app = ''Spotify'')
             \<and> (\<forall>app. PausePlayer app \<in> set cmds \<longleftrightarrow>
                   (app = ''Music'' \<or> app = ''Spotify'')
                   \<and> probeResult env app = ProbeOutput ''playing'')"
proof -
  define lvl where "lvl = (case level options of None \<Rightarrow> duckLevel s
                           | Some l \<Rightarrow> if l = [] then duckLevel s else l)"
  define adv where "adv = (case advanced options of None \<Rightarrow> useAdvancedDucking s
                           | Some a \<Rightarrow> a)"
  define scripted where "scripted =
            [ProbePlayer ''Music'', ProbePlayer ''Spotify''] @
              (if probeResult env ''Music'' = ProbeOutput ''playing''
               then [PausePlayer ''Music''] else []) @
              (if probeResult env ''Spotify'' = ProbeOutput ''playing''
               then [PausePlayer ''Spotify''] else [])"
  obtain s1 t1 where n: "startNativeDucking env lvl adv s = (s1, False, t1)"
    and t1: "\<forall>app. ProbePlayer app \<notin> set t1 \<and> PausePlayer app \<notin> set t1"
    using startNativeDucking_fails[OF fails] by blast
  obtain s2 where a: "startAppleScriptDucking env s1 = (s2, True, scripted)"
    and s2: "isActive s2" "fallbackMode s2"
    using startAppleScriptDucking_darwin[OF darwin] unfolding scripted_def by blast
  have "startDucking env options s = (s2, True, t1 @ scripted)"
    using darwin inactive n a
    by (simp add: startDucking_def lvl_def[symmetric] adv_def[symmetric])
  then show ?thesis
    using s2 t1 by (auto simp add: getStatus_def scripted_def)
qed

theorem native_failure_falls_back_to_pausing_players_witness:
  "platform timeout_env = ''darwin'' \<and> \<not> isActive new_manager
   \<and> nativeOutcome timeout_env \<noteq> DuckingStarted
   \<and> (case startDucking timeout_env default_options new_manager of
         (s', ok, cmds) \<Rightarrow>
           ok \<and> isActive s' \<and> fallbackMode s'
           \<and> PausePlayer ''Music'' \<in> set cmds \<and> PausePlayer ''Spotify'' \<notin> set cmds)"
  using native_failure_falls_back_to_pausing_players
          [of timeout_env new_manager default_options]
  by (simp add: timeout_env_def new_manager_def split: prod.splits)

text \<open>
  The timeout scenario, evaluated: spawn, kill, the two probes, then the one pause.
\<close>

lemma startDucking_timeout_run:
  "startDucking timeout_env default_options new_manager =
     (new_manager\<lparr>isActive := True, fallbackMode := True,
        savedVolumes := \<lparr>music = Some ''was_playing'', spotify = None\<rparr>\<rparr>,
      True,
      [SpawnHelper ''/app/resources/bin/macos-audio-ducker'' [''start'', ''--level'', ''default''],
       KillHelper 4242,
       ProbePlayer ''Music'', ProbePlayer ''Spotify'', PausePlayer ''Music''])"
  by (simp add: startDucking_def startNativeDucking_def stopNativeDucking_def
      startAppleScriptDucking_def pauseMusicApp_def getBinaryPath_def
      timeout_env_def default_options_def new_manager_def)

text \<open>
  Claim C9. On a platform other than macOS, \<open>startDucking\<close> called in the inactive
  state returns false, issues no command at all (no helper is spawned, no script is
  run) and leaves the manager as it was, hence inactive.
\<close>

theorem startDucking_off_darwin_fails:
  "platform env \<noteq> ''darwin'' \<Longrightarrow> \<not> isActive s \<Longrightarrow>
   startDucking env options s = (s, False, []) \<and> \<not> isActive (fst (startDucking env options s))"
  by (simp add: startDucking_def startAppleScriptDucking_def Let_def)

theorem startDucking_off_darwin_fails_witness:
  "platform win32_env \<noteq> ''darwin'' \<and> \<not> isActive new_manager \<and>
   startDucking win32_env default_options new_manager = (new_manager, False, [])"
  using startDucking_off_darwin_fails [of win32_env new_manager default_options]
  by (simp add: win32_env_def new_manager_def)

text \<open>
  Claim C10. On macOS the scripting fallback reports success whatever the scripts do:
  \<open>pauseMusicApp\<close> always resolves, with false when the probe or the pause command
  ends in an error, so the rejection branch of \<open>startAppleScriptDucking\<close> is never taken;
  it returns true with the manager active in fallback mode.
\<close>

theorem fallback_succeeds_despite_script_errors:
  assumes "platform env = ''darwin''"
  shows "(case startAppleScriptDucking env s of
            (s', ok, cmds) \<Rightarrow> ok \<and> isActive s' \<and> fallbackMode s')
         \<and> (\<forall>app key m. \<exists>b. fst (snd (pauseMusicApp env app key m)) = Resolved b)
         \<and> (\<forall>app key m. probeResult env app = ProbeError \<or> pauseFails env app
               \<longrightarrow> fst (snd (pauseMusicApp env app key m)) = Resolved False)"
  using startAppleScriptDucking_darwin[OF assms, of s]
  by (auto simp add: pauseMusicApp_resolves)

theorem fallback_succeeds_despite_script_errors_witness:
  "platform failing_scripts_env = ''darwin''
   \<and> probeResult failing_scripts_env ''Music'' = ProbeError
   \<and> probeResult failing_scripts_env ''Spotify'' = ProbeError
   \<and> fst (snd (pauseMusicApp failing_scripts_env ''Music'' KMusic new_manager)) = Resolved False
   \<and> (case startAppleScriptDucking failing_scripts_env new_manager of
         (s', ok, cmds) \<Rightarrow> ok \<and> isActive s' \<and> fallbackMode s')"
  using fallback_succeeds_despite_script_errors [of failing_scripts_env new_manager]
  by (simp add: failing_scripts_env_def)

subsection \<open>Status\<close>

text \<open>
  Claim C6, as stated: the object \<open>getStatus\<close> returns has exactly the fields
  \<open>isActive\<close>, \<open>mode\<close> and \<open>nativeAvailable\<close>. It has no field \<open>mode\<close>: for a manager
  that is active in fallback mode the properties are \<open>isActive\<close>, \<open>fallbackMode\<close> and
  \<open>nativeAvailable\<close>, and reading \<open>mode\<close> finds nothing.
\<close>

theorem getStatus_has_no_mode_field:
  "map fst (fst (snd (getStatus timeout_env paused_manager)))
     = [''isActive'', ''fallbackMode'', ''nativeAvailable'']
   \<and> map_of (fst (snd (getStatus timeout_env paused_manager))) ''mode'' = None
   \<and> set (map fst (fst (snd (getStatus timeout_env paused_manager))))
       \<noteq> {''isActive'', ''mode'', ''nativeAvailable''}"
proof -
  have keys: "map fst (fst (snd (getStatus timeout_env paused_manager)))
                = [''isActive'', ''fallbackMode'', ''nativeAvailable'']"
    by (simp add: getStatus_def)
  have absent: "''mode'' \<notin> set [''isActive'', ''fallbackMode'', ''nativeAvailable'']"
    by simp
  have differ: "set [''isActive'', ''fallbackMode'', ''nativeAvailable'']
                  \<noteq> {''isActive'', ''mode'', ''nativeAvailable''}"
    using absent by blast
  have unread: "map_of (fst (snd (getStatus timeout_env paused_manager))) ''mode'' = None"
    by (simp add: getStatus_def)
  show ?thesis
    using keys differ unread by simp
qed

text \<open>
  Claim C6, amended. \<open>getStatus\<close> returns an object with exactly the fields
  \<open>isActive\<close>, \<open>fallbackMode\<close> and \<open>nativeAvailable\<close>: the manager's two flags as they
  are, and whether the platform is macOS and the helper binary exists. It is a pure
  read: the manager it leaves is the manager it found, field for field, and it issues
  no command.
\<close>

theorem getStatus_is_pure_read:
  "getStatus env s =
     (s, [(''isActive'', JBool (isActive s)),
          (''fallbackMode'', JBool (fallbackMode s)),
          (''nativeAvailable'',
             JBool (platform env = ''darwin'' \<and> getBinaryPath env \<noteq> None))],
      [])"
  by (simp add: getStatus_def isNativeDuckingAvailable_def)

subsection \<open>Stopping\<close>




text \<open>
  Claim C8. \<open>stopDucking\<close> on an inactive manager returns at once: the manager is
  unchanged in every field, no command is issued, and calling it again gives the same.
\<close>

theorem stopDucking_inactive_is_noop:
  "\<not> isActive s \<Longrightarrow>
   stopDucking env s = (s, []) \<and> stopDucking env (fst (stopDucking env s)) = stopDucking env s"
  by (simp add: stopDucking_def)

theorem stopDucking_inactive_is_noop_witness:
  "\<not> isActive new_manager \<and> stopDucking timeout_env new_manager = (new_manager, [])
   \<and> stopDucking timeout_env (fst (stopDucking timeout_env new_manager))
       = stopDucking timeout_env new_manager"
  using stopDucking_inactive_is_noop [of new_manager timeout_env]
  by (simp add: new_manager_def)

section \<open>Properties of process teardown\<close>

lemma will_quit_keeps_ducking_manager:
  "audioDuckingManager (will_quit a) = audioDuckingManager a"
  by (simp add: will_quit_def)

lemma cleanup_native_kills_helper:
  "cleanup env native_manager =
     (native_manager\<lparr>duckerProcess := None, isActive := False\<rparr>, [KillHelper 4242])"
  by (simp add: cleanup_def stopDucking_def stopNativeDucking_def native_manager_def)

text \<open>
  Claim C3. At process teardown every helper process should be terminated and, when
  ducking is active, \<open>stopDucking\<close> attempted, so that the ducking state ends inactive.
  The \<open>will-quit\<close> handler stops the key listeners and the servers but never calls
  \<open>cleanup\<close> on the ducking manager: with native ducking active and the helper running
  as process 4242, the manager after the handler is still active and still holds the
  helper process.
\<close>

theorem will_quit_leaves_ducking_active:
  "isActive (audioDuckingManager (will_quit quitting_app))
   \<and> duckerProcess (audioDuckingManager (will_quit quitting_app)) = Some 4242
   \<and> \<not> globeListenerRunning (will_quit quitting_app)
   \<and> \<not> windowsListenerRunning (will_quit quitting_app)"
  by (simp add: will_quit_def quitting_app_def native_manager_def)

end
